theory Spec2Isabelle
  imports Complex_Main
begin

section \<open>Data model\<close>

text \<open>
  The pipeline of \<^verbatim>\<open>data_collection.py\<close> works on pandas frames. A frame is modelled
  column-oriented, as pandas stores it: the row labels (the index, with its optional
  name) and an association list from column label to the column's values. An association
  list and not a map, since the order of the columns is observable and pandas allows a
  label to occur more than once (a concatenation along the columns keeps every input
  column, whatever its label).

  A timestamp is a time-zone naive \<^verbatim>\<open>pandas.Timestamp\<close>, counted in seconds since the epoch
  (the resolution of \<^verbatim>\<open>pd.to_datetime(_, unit='s')\<close>).

  A cell is a float64 value. The special values are constructors of their own; a finite
  value is a real number (rounding, overflow, underflow and the sign of zero are left
  out of the model). \<open>NaN\<close> is the missing marker of pandas.
\<close>

type_synonym timestamp = int

datatype cell = NaN | PInf | NInf | Fin real

type_synonym column = "string \<times> cell list"

record frame =
  index_name :: "string option"
  index :: "timestamp list"
  columns :: "column list"

type_synonym series = "(timestamp \<times> cell) list"

text \<open>
  The exceptions the pipeline can raise. The only one the repository raises itself is the
  plain \<^verbatim>\<open>Exception\<close> of \<^verbatim>\<open>fetch_hash_rate\<close>, with its message; the others come out of the
  libraries. A KeyError carries the labels that were not found.
\<close>

datatype error =
    Exception string
  | KeyError "string list"
  | ValueError string
  | AttributeError
  | InvalidIndexError
  | JSONDecodeError

text \<open>The labels of a frame, in column order (\<^verbatim>\<open>df.columns\<close>).\<close>

definition labels :: "frame \<Rightarrow> string list" where
  "labels df = map fst (columns df)"

section \<open>Float arithmetic of pandas and numpy\<close>

text \<open>
  \<^verbatim>\<open>a / b\<close> on float64 columns never raises: a division by zero gives an infinity, or NaN
  for \<^verbatim>\<open>0 / 0\<close>, and NaN propagates.
\<close>

fun fdiv :: "cell \<Rightarrow> cell \<Rightarrow> cell" where
  "fdiv NaN _ = NaN"
| "fdiv _ NaN = NaN"
| "fdiv (Fin a) (Fin b) =
     (if b = 0 then (if a = 0 then NaN else if 0 < a then PInf else NInf)
      else Fin (a / b))"
| "fdiv (Fin a) PInf = Fin 0"
| "fdiv (Fin a) NInf = Fin 0"
| "fdiv PInf (Fin b) = (if 0 \<le> b then PInf else NInf)"
| "fdiv NInf (Fin b) = (if 0 \<le> b then NInf else PInf)"
| "fdiv PInf PInf = NaN"
| "fdiv PInf NInf = NaN"
| "fdiv NInf PInf = NaN"
| "fdiv NInf NInf = NaN"

text \<open>
  \<^verbatim>\<open>np.log\<close>: the logarithm of zero is minus infinity, the logarithm of a negative number
  is NaN (numpy warns, it does not raise).
\<close>

fun np_log :: "cell \<Rightarrow> cell" where
  "np_log NaN = NaN"
| "np_log PInf = PInf"
| "np_log NInf = NaN"
| "np_log (Fin a) = (if 0 < a then Fin (ln a) else if a = 0 then NInf else NaN)"

text \<open>\<^verbatim>\<open>Series.shift(1)\<close>: every value moves one row down, the first row becomes NaN.\<close>

definition shift1 :: "cell list \<Rightarrow> cell list" where
  "shift1 vs = (case vs of [] \<Rightarrow> [] | _ # _ \<Rightarrow> NaN # butlast vs)"

text \<open>
  \<^verbatim>\<open>Series.dropna()\<close> removes the rows whose value is NaN and keeps the others with their
  labels, in order. An infinity is not missing (\<^verbatim>\<open>mode.use_inf_as_na\<close> is off).
\<close>

definition dropna :: "series \<Rightarrow> series" where
  "dropna s = filter (\<lambda>(d, v). v \<noteq> NaN) s"

section \<open>ReturnDeriver: \<^verbatim>\<open>bitcoin_log_returns\<close>\<close>

text \<open>
  \<^verbatim>\<open>df[name] = values\<close>: a label that exists is overwritten where it stands (every column
  carrying it), a new label is appended as the last column.
\<close>

definition setitem :: "frame \<Rightarrow> string \<Rightarrow> cell list \<Rightarrow> frame" where
  "setitem df name vs =
     (if name \<in> set (labels df)
      then df\<lparr>columns := map (\<lambda>(n, old). if n = name then (n, vs) else (n, old)) (columns df)\<rparr>
      else df\<lparr>columns := columns df @ [(name, vs)]\<rparr>)"

text \<open>The line printed when the price column is missing (an f-string).\<close>

definition warning_not_found :: "string \<Rightarrow> string" where
  "warning_not_found price_col =
     ''Warning: Column '' @ [CHR 0x27] @ price_col @ [CHR 0x27] @
     '' not found for calculating returns.''"

text \<open>The column computed at line 97: \<^verbatim>\<open>np.log(df[price_col] / df[price_col].shift(1))\<close>.\<close>

definition log_returns :: "cell list \<Rightarrow> cell list" where
  "log_returns prices = map np_log (map2 fdiv prices (shift1 prices))"

text \<open>
  \<^verbatim>\<open>
  if price_col in df.columns:
      df['BTC_LogReturns'] = np.log(df[price_col] / df[price_col].shift(1))
      log_returns_clean = df['BTC_LogReturns'].dropna()
  else:
      print(f"Warning: Column '{price_col}' not found for calculating returns.")
      df['BTC_LogReturns'] = np.nan
      log_returns_clean = pd.Series(dtype=float)
  return df, log_returns_clean
  \<close>
  The result is the lines printed and either the error raised or the pair returned.
  \<^verbatim>\<open>df[price_col]\<close> is one column when the label occurs once. When it occurs several
  times pandas selects a sub-frame, and a frame of several columns cannot be assigned
  to the one label \<^verbatim>\<open>BTC_LogReturns\<close>: the assignment raises ValueError.
\<close>

definition bitcoin_log_returns ::
  "frame \<Rightarrow> string \<Rightarrow> string list \<times> (error + frame \<times> series)" where
  "bitcoin_log_returns df price_col =
     (if price_col \<in> set (labels df) then
        (case filter (\<lambda>c. fst c = price_col) (columns df) of
           [(_, prices)] \<Rightarrow>
             let lr = log_returns prices
             in ([], Inr (setitem df ''BTC_LogReturns'' lr, dropna (zip (index df) lr)))
         | _ \<Rightarrow> ([], Inl (ValueError ''Cannot set a DataFrame with multiple columns'')))
      else
        ([warning_not_found price_col],
         Inr (setitem df ''BTC_LogReturns'' (replicate (length (index df)) NaN), [])))"

text \<open>The default of the parameter \<^verbatim>\<open>price_col\<close>.\<close>

definition default_price_col :: string where
  "default_price_col = ''BTC-USD_Close''"

section \<open>SeriesFetcher\<close>

text \<open>
  \<^verbatim>\<open>DataCollection(start, end)\<close>: the two bounds are date strings, or \<^verbatim>\<open>None\<close>.
\<close>

record DataCollection =
  start :: "string option"
  end' :: "string option"

subsection \<open>The collaborators\<close>

text \<open>
  What \<^verbatim>\<open>yf.download\<close> returns: a frame whose column labels are a plain \<^verbatim>\<open>Index\<close>
  (\<open>yf_levels = None\<close>, every key a single label) or a \<^verbatim>\<open>MultiIndex\<close> (\<open>yf_levels\<close> the
  names of its levels, every key the tuple of a column's level values).
\<close>

record yf_frame =
  yf_index_name :: "string option"
  yf_index :: "timestamp list"
  yf_levels :: "string option list option"
  yf_columns :: "(string list \<times> cell list) list"

text \<open>
  The JSON object \<^verbatim>\<open>{x: epochSeconds, y: number}\<close> of the metrics provider, and its
  response: the status code and the body, which is not JSON at all, or a JSON object
  with or without the key \<^verbatim>\<open>values\<close>.
\<close>

datatype point = Point (px: int) (py: cell)

datatype json_body = NotJSON | JSON "point list option"

record response =
  status_code :: int
  body :: json_body

text \<open>
  The outside world, as the parameters of the model: the two providers (either may raise),
  \<^verbatim>\<open>pd.to_datetime\<close> on a date string (it raises on a string that is no date) and Python's
  \<^verbatim>\<open>str\<close> of a tuple of labels.
\<close>

record world =
  yf_download :: "string \<Rightarrow> string option \<Rightarrow> string option \<Rightarrow> error + yf_frame"
  requests_get :: "string \<Rightarrow> (string \<times> string) list \<Rightarrow> error + response"
  to_datetime :: "string \<Rightarrow> error + timestamp"
  str_tuple :: "string list \<Rightarrow> string"

subsection \<open>\<^verbatim>\<open>fetch_asset_df\<close>\<close>

definition drop_nth :: "nat \<Rightarrow> 'a list \<Rightarrow> 'a list" where
  "drop_nth i xs = take i xs @ drop (Suc i) xs"

definition level_value :: "string list \<Rightarrow> string" where
  "level_value k = (case k of [] \<Rightarrow> [] | v # _ \<Rightarrow> v)"

text \<open>
  \<^verbatim>\<open>df.droplevel(level, axis=1)\<close> on a MultiIndex with the level names \<open>names\<close>: a name
  that occurs twice is ambiguous, the last level cannot be removed, and when one level
  remains the labels become a plain Index.
\<close>

definition level_number :: "string \<Rightarrow> string option list \<Rightarrow> nat" where
  "level_number level names = length (takeWhile (\<lambda>n. n \<noteq> Some level) names)"

definition droplevel :: "string \<Rightarrow> string option list \<Rightarrow> yf_frame \<Rightarrow> error + yf_frame" where
  "droplevel level names df =
     (if Some level \<notin> set names then Inl (KeyError [level])
      else if 1 < count_list names (Some level)
        then Inl (ValueError ''The name occurs multiple times, use a level number'')
      else if length names \<le> 1
        then Inl (ValueError ''Cannot remove 1 levels from an index with 1 levels'')
      else
        let i = level_number level names;
            names' = drop_nth i names;
            cols = map (\<lambda>(k, vs). (drop_nth i k, vs)) (yf_columns df)
        in Inr (df\<lparr>yf_levels := (if length names' = 1 then None else Some names'),
                      yf_columns := cols\<rparr>))"

text \<open>
  Lines 36 and 37:
  \<^verbatim>\<open>
  if isinstance(df.columns, pd.MultiIndex) and 'Ticker' in df.columns.names:
      df = df.droplevel('Ticker', axis=1)
  \<close>
\<close>

definition drop_ticker :: "yf_frame \<Rightarrow> error + yf_frame" where
  "drop_ticker df =
     (case yf_levels df of
        None \<Rightarrow> Inr df
      | Some names \<Rightarrow>
          if Some ''Ticker'' \<in> set names then droplevel ''Ticker'' names df else Inr df)"

text \<open>
  Line 40, \<^verbatim>\<open>f"{asset_name}_{col}"\<close>: \<^verbatim>\<open>col\<close> is the label of a plain Index, or the tuple
  of a MultiIndex, formatted by \<^verbatim>\<open>str\<close>.
\<close>

definition prefixed :: "world \<Rightarrow> string \<Rightarrow> yf_frame \<Rightarrow> string list \<Rightarrow> string" where
  "prefixed w asset_name df k =
     asset_name @ ''_'' @ (case yf_levels df of None \<Rightarrow> level_value k | Some _ \<Rightarrow> str_tuple w k)"

definition fetch_asset_df :: "world \<Rightarrow> DataCollection \<Rightarrow> string \<Rightarrow> error + frame" where
  "fetch_asset_df w self asset_name =
     (case yf_download w asset_name (start self) (end' self) of
        Inl e \<Rightarrow> Inl e
      | Inr downloaded \<Rightarrow>
          (case drop_ticker downloaded of
             Inl e \<Rightarrow> Inl e
           | Inr df \<Rightarrow>
               Inr \<lparr>index_name = yf_index_name df, index = yf_index df,
                    columns = map (\<lambda>(k, vs). (prefixed w asset_name df k, vs)) (yf_columns df)\<rparr>))"

subsection \<open>\<^verbatim>\<open>fetch_hash_rate\<close>\<close>

text \<open>Python's \<^verbatim>\<open>str\<close> of an integer, for the status code in the message of the exception.\<close>

fun str_nat :: "nat \<Rightarrow> string" where
  "str_nat n =
     (if n < 10 then [char_of (48 + n)]
      else str_nat (n div 10) @ [char_of (48 + n mod 10)])"

definition str_int :: "int \<Rightarrow> string" where
  "str_int i = (if i < 0 then ''-'' @ str_nat (nat (- i)) else str_nat (nat i))"

definition hash_rate_url :: string where
  "hash_rate_url = ''https://api.blockchain.info/charts/hash-rate''"

text \<open>
  Lines 66 to 69: the frame of the points, with the columns \<^verbatim>\<open>x\<close>, \<^verbatim>\<open>y\<close> and the copy
  \<^verbatim>\<open>HashRate\<close> of \<^verbatim>\<open>y\<close>, indexed by the dates of \<^verbatim>\<open>x\<close>. A frame made of no point has no
  column, and \<^verbatim>\<open>df['x']\<close> raises KeyError.
\<close>

definition hash_rate_frame :: "point list \<Rightarrow> error + frame" where
  "hash_rate_frame vals =
     (if vals = [] then Inl (KeyError [''x''])
      else Inr \<lparr>index_name = Some ''Date'', index = map px vals,
                columns = [(''x'', map (\<lambda>p. Fin (of_int (px p))) vals),
                           (''y'', map py vals),
                           (''HashRate'', map py vals)]\<rparr>)"

text \<open>\<^verbatim>\<open>df[mask]\<close> with a boolean mask computed from the index: the rows kept, in order.\<close>

definition select_rows :: "(timestamp \<Rightarrow> bool) \<Rightarrow> frame \<Rightarrow> frame" where
  "select_rows keep df =
     df\<lparr>index := filter keep (index df),
        columns := map (\<lambda>(n, vs). (n, map snd (filter (\<lambda>(d, v). keep d) (zip (index df) vs))))
                     (columns df)\<rparr>"

text \<open>
  Lines 71 to 79. \<^verbatim>\<open>if self.start:\<close> is Python's truth test: \<^verbatim>\<open>None\<close> and the empty string
  are false. The result is the lines printed and the error raised or the frame.
  \<^verbatim>\<open>
  if self.start:
      df = df[df.index >= pd.to_datetime(self.start)]
  else:
      print('No start date provided.')
  if self.end:
      df = df[df.index < pd.to_datetime(self.end)]
  else:
      print('No end date provided.')
  \<close>
\<close>

definition filter_start :: "world \<Rightarrow> DataCollection \<Rightarrow> frame \<Rightarrow> string list \<times> (error + frame)" where
  "filter_start w self df =
     (case start self of
        Some s \<Rightarrow>
          if s \<noteq> [] then
            (case to_datetime w s of
               Inl e \<Rightarrow> ([], Inl e)
             | Inr lo \<Rightarrow> ([], Inr (select_rows (\<lambda>d. lo \<le> d) df)))
          else ([''No start date provided.''], Inr df)
      | None \<Rightarrow> ([''No start date provided.''], Inr df))"

definition filter_end :: "world \<Rightarrow> DataCollection \<Rightarrow> frame \<Rightarrow> string list \<times> (error + frame)" where
  "filter_end w self df =
     (case end' self of
        Some s \<Rightarrow>
          if s \<noteq> [] then
            (case to_datetime w s of
               Inl e \<Rightarrow> ([], Inl e)
             | Inr hi \<Rightarrow> ([], Inr (select_rows (\<lambda>d. d < hi) df)))
          else ([''No end date provided.''], Inr df)
      | None \<Rightarrow> ([''No end date provided.''], Inr df))"

definition filter_range :: "world \<Rightarrow> DataCollection \<Rightarrow> frame \<Rightarrow> string list \<times> (error + frame)" where
  "filter_range w self df =
     (case filter_start w self df of
        (out1, Inl e) \<Rightarrow> (out1, Inl e)
      | (out1, Inr df1) \<Rightarrow>
          (case filter_end w self df1 of (out2, r) \<Rightarrow> (out1 @ out2, r)))"

text \<open>
  Lines 56 to 81. The request can fail in \<^verbatim>\<open>requests.get\<close> itself; a status other than 200
  raises the \<^verbatim>\<open>Exception\<close> of line 64; \<^verbatim>\<open>response.json()\<close> and \<^verbatim>\<open>data['values']\<close> raise
  on a body of the wrong shape.
\<close>

definition fetch_hash_rate ::
  "world \<Rightarrow> DataCollection \<Rightarrow> bool \<Rightarrow> string \<Rightarrow> string list \<times> (error + frame)" where
  "fetch_hash_rate w self sampled timespan =
     (case requests_get w hash_rate_url
             [(''timespan'', timespan), (''format'', ''json''),
              (''sampled'', if sampled then ''true'' else ''false'')] of
        Inl e \<Rightarrow> ([], Inl e)
      | Inr r \<Rightarrow>
          if status_code r \<noteq> 200
          then ([], Inl (Exception (''API requested failed: '' @ str_int (status_code r))))
          else
            (case body r of
               NotJSON \<Rightarrow> ([], Inl JSONDecodeError)
             | JSON None \<Rightarrow> ([], Inl (KeyError [''values'']))
             | JSON (Some vals) \<Rightarrow>
                 (case hash_rate_frame vals of
                    Inl e \<Rightarrow> ([], Inl e)
                  | Inr df \<Rightarrow> filter_range w self df)))"

section \<open>Aligner: \<^verbatim>\<open>merge_df\<close>\<close>

subsection \<open>\<^verbatim>\<open>pd.concat(objs, axis=1)\<close>\<close>

text \<open>
  The union of two indexes of dates (\<^verbatim>\<open>Index.union\<close> with \<^verbatim>\<open>sort=None\<close>): when the two are
  equal or one is empty the other is returned as it is, otherwise the result is the
  sorted union. \<^verbatim>\<open>union_indexes\<close> folds it over the indexes of the frames, from the first.
\<close>

definition index_union :: "timestamp list \<Rightarrow> timestamp list \<Rightarrow> timestamp list" where
  "index_union a b =
     (if b = [] \<or> a = b then a else if a = [] then b else sort (remdups (a @ b)))"

definition union_indexes :: "timestamp list list \<Rightarrow> timestamp list" where
  "union_indexes idxs = (case idxs of [] \<Rightarrow> [] | i # rest \<Rightarrow> foldl index_union i rest)"

text \<open>The name of the combined index: the common name, or none when the names differ.\<close>

definition union_name :: "string option list \<Rightarrow> string option" where
  "union_name names =
     (case names of [] \<Rightarrow> None | n # rest \<Rightarrow> if \<forall>m \<in> set rest. m = n then n else None)"

text \<open>
  A column moved onto a new index: the value of the row with the same label, NaN at a
  label its frame does not have.
\<close>

definition reindex :: "timestamp list \<Rightarrow> cell list \<Rightarrow> timestamp list \<Rightarrow> cell list" where
  "reindex idx vs new_idx =
     map (\<lambda>d. case map_of (zip idx vs) d of None \<Rightarrow> NaN | Some v \<Rightarrow> v) new_idx"

text \<open>
  Line 112, \<^verbatim>\<open>pd.concat([btc_df, sp500_df, hash_rate], axis=1)\<close>, with the default outer
  join. The columns of the result are the columns of the frames, one frame after the
  other, under the labels they had: no label is checked, renamed or dropped.
  \<^item> Frames that all have the same index are put side by side as they are.
  \<^item> Otherwise every frame is moved onto the union of the indexes. pandas refuses to
    move a frame whose index repeats a label (InvalidIndexError); the model raises for
    every list of frames with differing indexes of which one repeats a label.
\<close>

definition pd_concat :: "frame list \<Rightarrow> error + frame" where
  "pd_concat objs =
     (if objs = [] then Inl (ValueError ''No objects to concatenate'')
      else if \<forall>df \<in> set objs. index df = index (hd objs) then
        Inr \<lparr>index_name = union_name (map index_name objs), index = index (hd objs),
             columns = concat (map columns objs)\<rparr>
      else if \<exists>df \<in> set objs. \<not> distinct (index df) then Inl InvalidIndexError
      else
        let new_index = union_indexes (map index objs)
        in Inr \<lparr>index_name = union_name (map index_name objs), index = new_index,
                columns = concat (map (\<lambda>df. map (\<lambda>(n, vs). (n, reindex (index df) vs new_index))
                                              (columns df)) objs)\<rparr>)"

subsection \<open>Lines 113 to 115\<close>

text \<open>
  \<^verbatim>\<open>merged_df.drop(['x', 'y'], axis=1)\<close> removes every column with one of the labels, and
  raises KeyError for the labels that no column has.
\<close>

definition drop_columns :: "string list \<Rightarrow> frame \<Rightarrow> error + frame" where
  "drop_columns names df =
     (case filter (\<lambda>n. n \<notin> set (labels df)) names of
        [] \<Rightarrow> Inr (df\<lparr>columns := filter (\<lambda>(n, vs). n \<notin> set names) (columns df)\<rparr>)
      | missing \<Rightarrow> Inl (KeyError missing))"

text \<open>
  The table handed to the sink: the column \<^verbatim>\<open>Date\<close> of calendar dates (days since the
  epoch) in front of the other columns.
\<close>

record merged_frame =
  Date :: "int list"
  value_columns :: "column list"

definition date_of :: "timestamp \<Rightarrow> int" where
  "date_of t = t div 86400"

text \<open>
  \<^verbatim>\<open>merged_df.reset_index()\<close> turns the index into the first column, under the name of the
  index (\<^verbatim>\<open>index\<close>, or \<^verbatim>\<open>level_0\<close>, for an index with no name) and raises ValueError when
  that label exists. \<^verbatim>\<open>merged_df['Date'].dt.date\<close> then needs a column \<^verbatim>\<open>Date\<close> of
  timestamps: it raises KeyError when there is none and AttributeError on a column of
  numbers.
\<close>

definition reset_index_date :: "frame \<Rightarrow> error + merged_frame" where
  "reset_index_date df =
     (let name = (case index_name df of
                    Some n \<Rightarrow> n
                  | None \<Rightarrow> if ''index'' \<in> set (labels df) then ''level_0'' else ''index'')
      in if name \<in> set (labels df)
           then Inl (ValueError (''cannot insert '' @ name @ '', already exists''))
         else if name = ''Date''
           then Inr \<lparr>Date = map date_of (index df), value_columns = columns df\<rparr>
         else if ''Date'' \<in> set (labels df) then Inl AttributeError
         else Inl (KeyError [''Date'']))"

definition merge_frames :: "frame list \<Rightarrow> error + merged_frame" where
  "merge_frames objs =
     (case pd_concat objs of
        Inl e \<Rightarrow> Inl e
      | Inr merged_df \<Rightarrow>
          (case drop_columns [''x'', ''y''] merged_df of
             Inl e \<Rightarrow> Inl e
           | Inr merged_df \<Rightarrow> reset_index_date merged_df))"

subsection \<open>\<^verbatim>\<open>merge_df\<close>\<close>

definition merge_df :: "world \<Rightarrow> DataCollection \<Rightarrow> string list \<times> (error + merged_frame)" where
  "merge_df w self =
     (case fetch_asset_df w self ''BTC-USD'' of
        Inl e \<Rightarrow> ([], Inl e)
      | Inr btc_df \<Rightarrow>
          (case bitcoin_log_returns btc_df default_price_col of
             (out1, Inl e) \<Rightarrow> (out1, Inl e)
           | (out1, Inr (btc_df, log_returns_clean)) \<Rightarrow>
               (case fetch_asset_df w self ''SPY'' of
                  Inl e \<Rightarrow> (out1, Inl e)
                | Inr sp500_df \<Rightarrow>
                    (case fetch_hash_rate w self False ''all'' of
                       (out2, Inl e) \<Rightarrow> (out1 @ out2, Inl e)
                     | (out2, Inr hash_rate) \<Rightarrow>
                         (out1 @ out2, merge_frames [btc_df, sp500_df, hash_rate])))))"

subsection \<open>Cells\<close>


section \<open>Example inputs\<close>

text \<open>Concrete frames and worlds, on which the theorems below are evaluated.\<close>

definition btc_example :: frame where
  "btc_example =
     \<lparr>index_name = Some ''Date'', index = [0, 86400, 172800],
      columns = [(''BTC-USD_Close'', [Fin 100, Fin 110, Fin 121])]\<rparr>"

definition btc_rerun_example :: frame where
  "btc_rerun_example =
     \<lparr>index_name = Some ''Date'', index = [0, 86400],
      columns = [(''BTC-USD_Close'', [Fin 1, Fin 1]), (''BTC_LogReturns'', [Fin 5, Fin 5])]\<rparr>"



definition hash_points_example :: "point list" where
  "hash_points_example =
     [Point 1609459200 (Fin 5), Point 1609545600 (Fin 6),
      Point 1609675200 (Fin 8), Point 1609718400 (Fin 7)]"

definition btc_download :: yf_frame where
  "btc_download =
     \<lparr>yf_index_name = Some ''Date'', yf_index = [1609545600, 1609632000],
      yf_levels = Some [Some ''Price'', Some ''Ticker''],
      yf_columns = [([''Close'', ''BTC-USD''], [Fin 100, Fin 110]),
                    ([''Volume'', ''BTC-USD''], [Fin 7, Fin 9])]\<rparr>"

definition spy_download :: yf_frame where
  "spy_download =
     \<lparr>yf_index_name = Some ''Date'', yf_index = [1609632000],
      yf_levels = None,
      yf_columns = [([''Close''], [Fin 370])]\<rparr>"

definition world_example :: world where
  "world_example =
     \<lparr>yf_download = (\<lambda>asset_name s e.
         if asset_name = ''BTC-USD'' then Inr btc_download
         else if asset_name = ''SPY'' then Inr spy_download
         else if asset_name = ''A''
           then Inr (spy_download\<lparr>yf_columns := [([''B_C''], [Fin 1])]\<rparr>)
         else if asset_name = ''A_B''
           then Inr (spy_download\<lparr>yf_columns := [([''C''], [Fin 3])]\<rparr>)
         else Inl (Exception ''no data'')),
      requests_get = (\<lambda>url params.
         Inr \<lparr>status_code = 200, body = JSON (Some hash_points_example)\<rparr>),
      to_datetime = (\<lambda>s. if s = ''2021-01-02'' then Inr 1609545600
                          else if s = ''2021-01-04'' then Inr 1609718400
                          else Inl (ValueError ''Unknown datetime string format'')),
      str_tuple = concat\<rparr>"

definition world_unavailable :: world where
  "world_unavailable =
     world_example\<lparr>requests_get := (\<lambda>url params. Inr \<lparr>status_code = 503, body = NotJSON\<rparr>)\<rparr>"

definition collection_example :: DataCollection where
  "collection_example = \<lparr>start = Some ''2021-01-02'', end' = Some ''2021-01-04''\<rparr>"





section \<open>Properties of the return derivation\<close>







lemma map_of_setitem: "map_of (columns (setitem df name vs)) name = Some vs"
proof (cases "name \<in> set (labels df)")
  case True
  have "name \<in> set (map fst cs) \<Longrightarrow>
    map_of (map (\<lambda>(n, old). if n = name then (n, vs) else (n, old)) cs) name = Some vs" for cs
  proof (induction cs)
    case Nil
    then show ?case by simp
  next
    case (Cons c cs)
    then show ?case by (cases c) auto
  qed
  with True show ?thesis by (simp add: setitem_def labels_def)
next
  case False
  then have "map_of (columns df) name = None"
    by (simp add: labels_def map_of_eq_None_iff)
  with False show ?thesis by (simp add: setitem_def map_add_def)
qed

lemma index_setitem: "index (setitem df name vs) = index df"
  by (simp add: setitem_def)

lemma setitem_values:
  "(n, vs') \<in> set (columns (setitem df name vs)) \<Longrightarrow> n = name \<Longrightarrow> vs' = vs"
  by (force simp: setitem_def labels_def split: if_splits)

lemma bitcoin_log_returns_once:
  assumes "filter (\<lambda>c. fst c = price_col) (columns df) = [(price_col, prices)]"
  shows "bitcoin_log_returns df price_col =
    ([], Inr (setitem df ''BTC_LogReturns'' (log_returns prices),
              dropna (zip (index df) (log_returns prices))))"
proof -
  have "(price_col, prices) \<in> set (filter (\<lambda>c. fst c = price_col) (columns df))"
    using assms by simp
  then have "price_col \<in> set (labels df)" by (force simp: labels_def)
  then show ?thesis using assms by (simp add: bitcoin_log_returns_def Let_def)
qed



text \<open>
  C4. On a frame without the requested price column the derivation raises nothing: it
  prints the warning that quotes the missing label, returns the frame with the same
  index and with NaN in every row of \<^verbatim>\<open>BTC_LogReturns\<close>, and returns the empty series.
\<close>

theorem bitcoin_log_returns_missing_column:
  assumes "price_col \<notin> set (labels df)"
  shows "\<exists>df'.
    bitcoin_log_returns df price_col =
      ([''Warning: Column '' @ [CHR 0x27] @ price_col @ [CHR 0x27] @
        '' not found for calculating returns.''], Inr (df', [])) \<and>
    index df' = index df \<and>
    map_of (columns df') ''BTC_LogReturns'' = Some (replicate (length (index df)) NaN) \<and>
    (\<forall>(n, vs) \<in> set (columns df').
        n = ''BTC_LogReturns'' \<longrightarrow> vs = replicate (length (index df)) NaN)"
proof -
  let ?df' = "setitem df ''BTC_LogReturns'' (replicate (length (index df)) NaN)"
  have "bitcoin_log_returns df price_col = ([warning_not_found price_col], Inr (?df', []))"
    using assms by (simp add: bitcoin_log_returns_def)
  moreover have "\<forall>(n, vs) \<in> set (columns ?df').
        n = ''BTC_LogReturns'' \<longrightarrow> vs = replicate (length (index df)) NaN"
    using setitem_values by blast
  ultimately show ?thesis
    by (intro exI [of _ ?df']) (simp add: warning_not_found_def map_of_setitem index_setitem)
qed

theorem bitcoin_log_returns_missing_column_witness:
  "''Close'' \<notin> set (labels btc_example) \<and>
   bitcoin_log_returns btc_example ''Close'' =
     ([''Warning: Column '' @ [CHR 0x27] @ ''Close'' @ [CHR 0x27] @
       '' not found for calculating returns.''],
      Inr (btc_example\<lparr>columns := columns btc_example @ [(''BTC_LogReturns'', [NaN, NaN, NaN])]\<rparr>,
           []))"
proof -
  have h: "''Close'' \<notin> set (labels btc_example)"
    by (simp add: btc_example_def labels_def)
  from bitcoin_log_returns_missing_column [OF h]
  obtain df' where
    r: "bitcoin_log_returns btc_example ''Close'' =
      ([''Warning: Column '' @ [CHR 0x27] @ ''Close'' @ [CHR 0x27] @
        '' not found for calculating returns.''], Inr (df', []))"
    by blast
  have "bitcoin_log_returns btc_example ''Close'' =
     ([warning_not_found ''Close''],
      Inr (btc_example\<lparr>columns := columns btc_example @ [(''BTC_LogReturns'', [NaN, NaN, NaN])]\<rparr>,
           []))"
    by (simp add: bitcoin_log_returns_def btc_example_def labels_def setitem_def numeral_3_eq_3)
  with r h show ?thesis by simp
qed

text \<open>
  C9, as amended. When the frame has the price column (once) and no column labelled
  \<^verbatim>\<open>BTC_LogReturns\<close> yet, the returned frame is the input frame with one more column, the
  last, labelled \<^verbatim>\<open>BTC_LogReturns\<close> whatever the price column is called: the index, its
  name and every column of the input are as they were.
\<close>

theorem bitcoin_log_returns_frame:
  assumes "filter (\<lambda>c. fst c = price_col) (columns df) = [(price_col, prices)]"
    and "''BTC_LogReturns'' \<notin> set (labels df)"
  shows "\<exists>lr clean.
    bitcoin_log_returns df price_col =
      ([], Inr (df\<lparr>columns := columns df @ [(''BTC_LogReturns'', lr)]\<rparr>, clean))"
proof -
  have "bitcoin_log_returns df price_col =
      ([], Inr (df\<lparr>columns := columns df @ [(''BTC_LogReturns'', log_returns prices)]\<rparr>,
                dropna (zip (index df) (log_returns prices))))"
    using bitcoin_log_returns_once [OF assms(1)] assms(2) by (simp add: setitem_def)
  then show ?thesis by blast
qed

theorem bitcoin_log_returns_frame_witness:
  "filter (\<lambda>c. fst c = ''BTC-USD_Close'') (columns btc_example) =
     [(''BTC-USD_Close'', [Fin 100, Fin 110, Fin 121])] \<and>
   ''BTC_LogReturns'' \<notin> set (labels btc_example) \<and>
   (\<exists>lr clean. bitcoin_log_returns btc_example ''BTC-USD_Close'' =
      ([], Inr (\<lparr>index_name = Some ''Date'', index = [0, 86400, 172800],
                 columns = [(''BTC-USD_Close'', [Fin 100, Fin 110, Fin 121]),
                            (''BTC_LogReturns'', lr)]\<rparr>, clean)))"
proof -
  have h1: "filter (\<lambda>c. fst c = ''BTC-USD_Close'') (columns btc_example) =
     [(''BTC-USD_Close'', [Fin 100, Fin 110, Fin 121])]"
    by (simp add: btc_example_def)
  have h2: "''BTC_LogReturns'' \<notin> set (labels btc_example)"
    by (simp add: btc_example_def labels_def)
  show ?thesis
    using h1 h2 bitcoin_log_returns_frame [OF h1 h2] by (simp add: btc_example_def)
qed

text \<open>
  The claim as stated fails on a frame that already has the column: the second run of
  the derivation on the same frame overwrites \<^verbatim>\<open>BTC_LogReturns\<close> and adds nothing.
\<close>

theorem bitcoin_log_returns_frame_counterexample:
  "''BTC-USD_Close'' \<in> set (labels btc_rerun_example) \<and>
   columns btc_rerun_example =
     [(''BTC-USD_Close'', [Fin 1, Fin 1]), (''BTC_LogReturns'', [Fin 5, Fin 5])] \<and>
   bitcoin_log_returns btc_rerun_example ''BTC-USD_Close'' =
     ([], Inr (\<lparr>index_name = Some ''Date'', index = [0, 86400],
                columns = [(''BTC-USD_Close'', [Fin 1, Fin 1]),
                           (''BTC_LogReturns'', [NaN, Fin 0])]\<rparr>,
               [(86400, Fin 0)]))"
  by (simp add: bitcoin_log_returns_def btc_rerun_example_def labels_def setitem_def
      log_returns_def shift1_def dropna_def)




section \<open>Properties of the metric fetch\<close>

lemma str_nat_unfold:
  "str_nat n = (if n < 10 then [char_of (48 + n)] else str_nat (n div 10) @ [char_of (48 + n mod 10)])"
  by (rule str_nat.simps)

declare str_nat.simps [simp del]

lemma str_nat_nonempty: "str_nat n \<noteq> []"
  by (subst str_nat_unfold) simp

lemma digit_inj: "a < 10 \<Longrightarrow> b < 10 \<Longrightarrow> (char_of (48 + a) :: char) = char_of (48 + b) \<Longrightarrow> a = (b::nat)"
proof -
  assume a: "a < 10" and b: "b < 10" and e: "(char_of (48 + a) :: char) = char_of (48 + b)"
  have "of_char (char_of (48 + a) :: char) = (of_char (char_of (48 + b) :: char) :: nat)"
    using e by simp
  then have "(48 + a) mod 256 = (48 + b) mod 256" by (simp add: of_char_of)
  with a b show ?thesis by simp
qed

lemma digit_not_minus: "a < 10 \<Longrightarrow> (char_of (48 + a :: nat) :: char) \<noteq> CHR ''-''"
proof
  assume a: "a < 10" and e: "(char_of (48 + a) :: char) = CHR ''-''"
  have "of_char (char_of (48 + a) :: char) = (of_char CHR ''-'' :: nat)"
    using e by simp
  then have "(48 + a) mod 256 = 45" by (simp add: of_char_of)
  with a show False by simp
qed

lemma str_nat_inj: "str_nat n = str_nat m \<Longrightarrow> n = m"
proof (induction n arbitrary: m rule: str_nat.induct)
  case (1 n)
  show ?case
  proof (cases "n < 10")
    case True
    then have n: "str_nat n = [char_of (48 + n)]" by (subst str_nat_unfold) simp
    show ?thesis
    proof (cases "m < 10")
      case m: True
      then have "str_nat m = [char_of (48 + m)]" by (subst str_nat_unfold) simp
      with n "1.prems" have "(char_of (48 + n) :: char) = char_of (48 + m)" by simp
      with True m show ?thesis by (rule digit_inj)
    next
      case False
      then have "str_nat m = str_nat (m div 10) @ [char_of (48 + m mod 10)]"
        by (subst str_nat_unfold) simp
      with n "1.prems" have "str_nat (m div 10) = []" by simp
      then show ?thesis by (simp add: str_nat_nonempty)
    qed
  next
    case False
    then have n: "str_nat n = str_nat (n div 10) @ [char_of (48 + n mod 10)]"
      by (subst str_nat_unfold) simp
    show ?thesis
    proof (cases "m < 10")
      case True
      then have "str_nat m = [char_of (48 + m)]" by (subst str_nat_unfold) simp
      with n "1.prems" have "str_nat (n div 10) = []" by simp
      then show ?thesis by (simp add: str_nat_nonempty)
    next
      case m: False
      then have "str_nat m = str_nat (m div 10) @ [char_of (48 + m mod 10)]"
        by (subst str_nat_unfold) simp
      with n "1.prems" have e: "str_nat (n div 10) = str_nat (m div 10)"
        and d: "(char_of (48 + n mod 10) :: char) = char_of (48 + m mod 10)" by simp_all
      from "1.IH" [OF False e] have q: "n div 10 = m div 10" .
      from d have r: "n mod 10 = m mod 10" by (intro digit_inj) simp_all
      from q r show ?thesis by (metis div_mult_mod_eq)
    qed
  qed
qed

lemma str_nat_hd: "hd (str_nat n) \<noteq> CHR ''-''"
proof (induction n rule: str_nat.induct)
  case (1 n)
  show ?case
  proof (cases "n < 10")
    case True
    then show ?thesis by (subst str_nat_unfold) (simp add: digit_not_minus)
  next
    case False
    with 1 show ?thesis by (subst str_nat_unfold) (simp add: str_nat_nonempty)
  qed
qed

lemma str_int_inj: "str_int i = str_int j \<Longrightarrow> i = j"
proof -
  assume e: "str_int i = str_int j"
  have neq: "''-'' @ str_nat a \<noteq> str_nat b" for a b
    using str_nat_hd [of b] by (cases "str_nat b") auto
  show ?thesis
  proof (cases "i < 0"; cases "j < 0")
    assume "i < 0" "j < 0"
    with e have "str_nat (nat (- i)) = str_nat (nat (- j))" by (simp add: str_int_def)
    then have "nat (- i) = nat (- j)" by (rule str_nat_inj)
    with \<open>i < 0\<close> \<open>j < 0\<close> show ?thesis by simp
  next
    assume "i < 0" "\<not> j < 0"
    with e neq show ?thesis by (simp add: str_int_def)
  next
    assume "\<not> i < 0" "j < 0"
    with e neq [of "nat (- j)" "nat i"] show ?thesis by (simp add: str_int_def)
  next
    assume "\<not> i < 0" "\<not> j < 0"
    with e have "str_nat (nat i) = str_nat (nat j)" by (simp add: str_int_def)
    then have "nat i = nat j" by (rule str_nat_inj)
    with \<open>\<not> i < 0\<close> \<open>\<not> j < 0\<close> show ?thesis by simp
  qed
qed




text \<open>
  C5. A response whose status is not 200 makes \<^verbatim>\<open>fetch_hash_rate\<close> raise: the result is
  the exception of line 64 and no frame, nothing is printed, and the message of the
  exception ends with the status code, which it determines.
\<close>

theorem fetch_hash_rate_status:
  assumes "requests_get w hash_rate_url
             [(''timespan'', timespan), (''format'', ''json''),
              (''sampled'', if sampled then ''true'' else ''false'')] = Inr r"
    and "status_code r \<noteq> 200"
  shows "fetch_hash_rate w self sampled timespan =
           ([], Inl (Exception (''API requested failed: '' @ str_int (status_code r)))) \<and>
         (\<forall>c. ''API requested failed: '' @ str_int c =
                ''API requested failed: '' @ str_int (status_code r) \<longrightarrow> c = status_code r)"
proof (intro conjI allI impI)
  show "fetch_hash_rate w self sampled timespan =
           ([], Inl (Exception (''API requested failed: '' @ str_int (status_code r))))"
    using assms by (simp add: fetch_hash_rate_def)
next
  fix c
  assume "''API requested failed: '' @ str_int c =
          ''API requested failed: '' @ str_int (status_code r)"
  then have "str_int c = str_int (status_code r)" by simp
  then show "c = status_code r" by (rule str_int_inj)
qed

theorem fetch_hash_rate_status_witness:
  "requests_get world_unavailable hash_rate_url
      [(''timespan'', ''all''), (''format'', ''json''), (''sampled'', ''false'')] =
     Inr \<lparr>status_code = 503, body = NotJSON\<rparr> \<and>
   fetch_hash_rate world_unavailable collection_example False ''all'' =
     ([], Inl (Exception ''API requested failed: 503''))"
proof -
  have h: "requests_get world_unavailable hash_rate_url
      [(''timespan'', ''all''), (''format'', ''json''),
       (''sampled'', if False then ''true'' else ''false'')] =
     Inr \<lparr>status_code = 503, body = NotJSON\<rparr>"
    by (simp add: world_unavailable_def)
  have s: "str_int 503 = ''503''"
    by code_simp
  have r: "fetch_hash_rate world_unavailable collection_example False ''all'' =
     ([], Inl (Exception (''API requested failed: '' @
        str_int (status_code \<lparr>status_code = 503, body = NotJSON\<rparr>))))"
    using fetch_hash_rate_status [OF h, of collection_example] by simp
  from r s h show ?thesis
    by simp
qed






section \<open>Properties of the price fetch\<close>

lemma join_inj_left:
  assumes "a1 @ CHR ''_'' # f1 = a2 @ CHR ''_'' # f2"
    and "CHR ''_'' \<notin> set a1" "CHR ''_'' \<notin> set a2"
  shows "a1 = a2"
proof -
  have "takeWhile (\<lambda>c. c \<noteq> CHR ''_'') (a @ CHR ''_'' # f) = a" if "CHR ''_'' \<notin> set a" for a f
    using that by (subst takeWhile_append2) auto
  from this [OF assms(2), of f1] this [OF assms(3), of f2] assms(1) show ?thesis
    by simp
qed

lemma join_inj_right:
  assumes "a1 @ CHR ''_'' # f1 = a2 @ CHR ''_'' # f2"
    and "CHR ''_'' \<notin> set f1" "CHR ''_'' \<notin> set f2"
  shows "a1 = a2"
proof -
  have "rev (a1 @ CHR ''_'' # f1) = rev (a2 @ CHR ''_'' # f2)"
    using assms(1) by simp
  then have "rev f1 @ CHR ''_'' # rev a1 = rev f2 @ CHR ''_'' # rev a2"
    by simp
  moreover have "CHR ''_'' \<notin> set (rev f1)" "CHR ''_'' \<notin> set (rev f2)"
    using assms(2,3) by simp_all
  ultimately have "rev f1 = rev f2"
    by (rule join_inj_left)
  with assms(1) show ?thesis by simp
qed

lemma level_number_less:
  "Some level \<in> set names \<Longrightarrow> level_number level names < length names"
  unfolding level_number_def by (induction names) auto

lemma drop_ticker_plain:
  "yf_levels raw = None \<Longrightarrow> drop_ticker raw = Inr raw"
  by (simp add: drop_ticker_def)

lemma drop_ticker_two_levels:
  assumes "yf_levels raw = Some names" "length names = 2" "count_list names (Some ''Ticker'') = 1"
  shows "drop_ticker raw =
    Inr (raw\<lparr>yf_levels := None,
             yf_columns := map (\<lambda>(k, vs). (drop_nth (level_number ''Ticker'' names) k, vs))
                              (yf_columns raw)\<rparr>)"
proof -
  have m: "Some ''Ticker'' \<in> set names"
    using assms(3) by (metis count_list_0_iff zero_neq_one)
  have "level_number ''Ticker'' names < length names"
    using m by (rule level_number_less)
  then have "length (drop_nth (level_number ''Ticker'' names) names) = 1"
    using assms(2) by (auto simp: drop_nth_def)
  with assms m show ?thesis
    by (simp add: drop_ticker_def droplevel_def Let_def)
qed

lemma fetch_asset_df_collapsed:
  assumes "yf_download w a (start self) (end' self) = Inr raw"
    and "yf_levels raw = None \<or>
         (\<exists>names. yf_levels raw = Some names \<and> length names = 2 \<and>
            count_list names (Some ''Ticker'') = 1)"
  shows "fetch_asset_df w self a =
    Inr \<lparr>index_name = yf_index_name raw, index = yf_index raw,
         columns = map (\<lambda>(k, vs).
            (a @ ''_'' @ (case yf_levels raw of None \<Rightarrow> level_value k
                 | Some names \<Rightarrow> level_value (drop_nth (level_number ''Ticker'' names) k)), vs))
            (yf_columns raw)\<rparr>"
  using assms(2)
proof (elim disjE exE conjE)
  assume "yf_levels raw = None"
  then show ?thesis
    using assms(1) by (simp add: fetch_asset_df_def drop_ticker_plain prefixed_def)
next
  fix names
  assume n: "yf_levels raw = Some names" "length names = 2"
    "count_list names (Some ''Ticker'') = 1"
  show ?thesis
    using assms(1) n(1)
    by (simp add: fetch_asset_df_def drop_ticker_two_levels [OF n] prefixed_def
        case_prod_unfold comp_def)
qed

text \<open>
  C8, as amended. When the download has plain column labels, or two column levels of
  which one is named \<^verbatim>\<open>Ticker\<close>, the fetched frame has the index and the values of the
  download and every column is labelled with the asset name, an underscore and the
  field (the label, or the value of the level that is not \<^verbatim>\<open>Ticker\<close>). The frames fetched
  for two different asset names share no label when neither asset name contains an
  underscore, or when no field does.
\<close>

theorem fetch_asset_df_prefix:
  assumes "yf_download w a1 (start self) (end' self) = Inr raw1"
    and "yf_download w a2 (start self) (end' self) = Inr raw2"
    and "yf_levels raw1 = None \<or>
         (\<exists>names. yf_levels raw1 = Some names \<and> length names = 2 \<and>
            count_list names (Some ''Ticker'') = 1)"
    and "yf_levels raw2 = None \<or>
         (\<exists>names. yf_levels raw2 = Some names \<and> length names = 2 \<and>
            count_list names (Some ''Ticker'') = 1)"
  shows "\<exists>df1 df2 field1 field2.
    field1 = (\<lambda>k. case yf_levels raw1 of None \<Rightarrow> level_value k
                | Some names \<Rightarrow> level_value (drop_nth (level_number ''Ticker'' names) k)) \<and>
    field2 = (\<lambda>k. case yf_levels raw2 of None \<Rightarrow> level_value k
                | Some names \<Rightarrow> level_value (drop_nth (level_number ''Ticker'' names) k)) \<and>
    fetch_asset_df w self a1 = Inr df1 \<and>
    fetch_asset_df w self a2 = Inr df2 \<and>
    df1 = \<lparr>index_name = yf_index_name raw1, index = yf_index raw1,
           columns = map (\<lambda>(k, vs). (a1 @ ''_'' @ field1 k, vs)) (yf_columns raw1)\<rparr> \<and>
    df2 = \<lparr>index_name = yf_index_name raw2, index = yf_index raw2,
           columns = map (\<lambda>(k, vs). (a2 @ ''_'' @ field2 k, vs)) (yf_columns raw2)\<rparr> \<and>
    (a1 \<noteq> a2 \<and>
     (CHR ''_'' \<notin> set a1 \<and> CHR ''_'' \<notin> set a2 \<or>
      (\<forall>(k, vs) \<in> set (yf_columns raw1). CHR ''_'' \<notin> set (field1 k)) \<and>
      (\<forall>(k, vs) \<in> set (yf_columns raw2). CHR ''_'' \<notin> set (field2 k)))
     \<longrightarrow> set (labels df1) \<inter> set (labels df2) = {})"
proof -
  let ?field1 = "\<lambda>k. case yf_levels raw1 of None \<Rightarrow> level_value k
                | Some names \<Rightarrow> level_value (drop_nth (level_number ''Ticker'' names) k)"
  let ?field2 = "\<lambda>k. case yf_levels raw2 of None \<Rightarrow> level_value k
                | Some names \<Rightarrow> level_value (drop_nth (level_number ''Ticker'' names) k)"
  let ?df1 = "\<lparr>index_name = yf_index_name raw1, index = yf_index raw1,
           columns = map (\<lambda>(k, vs). (a1 @ ''_'' @ ?field1 k, vs)) (yf_columns raw1)\<rparr>"
  let ?df2 = "\<lparr>index_name = yf_index_name raw2, index = yf_index raw2,
           columns = map (\<lambda>(k, vs). (a2 @ ''_'' @ ?field2 k, vs)) (yf_columns raw2)\<rparr>"
  have f1: "fetch_asset_df w self a1 = Inr ?df1"
    using assms(1,3) by (rule fetch_asset_df_collapsed)
  have f2: "fetch_asset_df w self a2 = Inr ?df2"
    using assms(2,4) by (rule fetch_asset_df_collapsed)
  have disj: "set (labels ?df1) \<inter> set (labels ?df2) = {}"
    if ne: "a1 \<noteq> a2"
      and u: "CHR ''_'' \<notin> set a1 \<and> CHR ''_'' \<notin> set a2 \<or>
        (\<forall>(k, vs) \<in> set (yf_columns raw1). CHR ''_'' \<notin> set (?field1 k)) \<and>
        (\<forall>(k, vs) \<in> set (yf_columns raw2). CHR ''_'' \<notin> set (?field2 k))"
  proof (rule ccontr)
    assume "set (labels ?df1) \<inter> set (labels ?df2) \<noteq> {}"
    then obtain l where "l \<in> set (labels ?df1)" "l \<in> set (labels ?df2)" by blast
    then obtain k1 v1 k2 v2 where
      c1: "(k1, v1) \<in> set (yf_columns raw1)" and l1: "l = a1 @ CHR ''_'' # ?field1 k1" and
      c2: "(k2, v2) \<in> set (yf_columns raw2)" and l2: "l = a2 @ CHR ''_'' # ?field2 k2"
      by (auto simp: labels_def)
    from l1 l2 have e: "a1 @ CHR ''_'' # ?field1 k1 = a2 @ CHR ''_'' # ?field2 k2" by simp
    from u show False
    proof
      assume "CHR ''_'' \<notin> set a1 \<and> CHR ''_'' \<notin> set a2"
      with e have "a1 = a2" by (intro join_inj_left [OF e]) simp_all
      with ne show False by simp
    next
      assume "(\<forall>(k, vs) \<in> set (yf_columns raw1). CHR ''_'' \<notin> set (?field1 k)) \<and>
        (\<forall>(k, vs) \<in> set (yf_columns raw2). CHR ''_'' \<notin> set (?field2 k))"
      with c1 c2 have "CHR ''_'' \<notin> set (?field1 k1)" "CHR ''_'' \<notin> set (?field2 k2)"
        by blast+
      with e have "a1 = a2" by (intro join_inj_right [OF e])
      with ne show False by simp
    qed
  qed
  show ?thesis
    by (intro exI [of _ ?df1] exI [of _ ?df2] exI [of _ ?field1] exI [of _ ?field2] conjI impI
          refl f1 f2 disj) blast+
qed

theorem fetch_asset_df_prefix_witness:
  "yf_download world_example ''BTC-USD'' (start collection_example) (end' collection_example) =
     Inr btc_download \<and>
   yf_download world_example ''SPY'' (start collection_example) (end' collection_example) =
     Inr spy_download \<and>
   yf_levels btc_download = Some [Some ''Price'', Some ''Ticker''] \<and>
   yf_levels spy_download = None \<and>
   fetch_asset_df world_example collection_example ''BTC-USD'' =
     Inr \<lparr>index_name = Some ''Date'', index = [1609545600, 1609632000],
          columns = [(''BTC-USD_Close'', [Fin 100, Fin 110]),
                     (''BTC-USD_Volume'', [Fin 7, Fin 9])]\<rparr> \<and>
   fetch_asset_df world_example collection_example ''SPY'' =
     Inr \<lparr>index_name = Some ''Date'', index = [1609632000],
          columns = [(''SPY_Close'', [Fin 370])]\<rparr>"
proof -
  have h1: "yf_download world_example ''BTC-USD'' (start collection_example)
      (end' collection_example) = Inr btc_download"
    and h2: "yf_download world_example ''SPY'' (start collection_example)
      (end' collection_example) = Inr spy_download"
    by (simp_all add: world_example_def)
  have l1: "yf_levels btc_download = Some [Some ''Price'', Some ''Ticker'']"
    and l2: "yf_levels spy_download = None"
    by (simp_all add: btc_download_def spy_download_def)
  have h3: "yf_levels btc_download = None \<or>
         (\<exists>names. yf_levels btc_download = Some names \<and> length names = 2 \<and>
            count_list names (Some ''Ticker'') = 1)"
    by (simp add: l1)
  have h4: "yf_levels spy_download = None \<or>
         (\<exists>names. yf_levels spy_download = Some names \<and> length names = 2 \<and>
            count_list names (Some ''Ticker'') = 1)"
    by (simp add: l2)
  from fetch_asset_df_prefix [OF h1 h2 h3 h4]
  obtain df1 df2 where
    "fetch_asset_df world_example collection_example ''BTC-USD'' = Inr df1"
    "fetch_asset_df world_example collection_example ''SPY'' = Inr df2"
    "df1 = \<lparr>index_name = yf_index_name btc_download, index = yf_index btc_download,
           columns = map (\<lambda>(k, vs). (''BTC-USD'' @ ''_'' @
              (case yf_levels btc_download of None \<Rightarrow> level_value k
                | Some names \<Rightarrow> level_value (drop_nth (level_number ''Ticker'' names) k)), vs))
              (yf_columns btc_download)\<rparr>"
    "df2 = \<lparr>index_name = yf_index_name spy_download, index = yf_index spy_download,
           columns = map (\<lambda>(k, vs). (''SPY'' @ ''_'' @
              (case yf_levels spy_download of None \<Rightarrow> level_value k
                | Some names \<Rightarrow> level_value (drop_nth (level_number ''Ticker'' names) k)), vs))
              (yf_columns spy_download)\<rparr>"
    by blast
  then show ?thesis
    using h1 h2 l1 l2
    by (simp add: btc_download_def spy_download_def level_number_def drop_nth_def
        level_value_def)
qed

theorem fetch_asset_df_prefix_counterexample:
  "''A'' \<noteq> ''A_B'' \<and>
   fetch_asset_df world_example collection_example ''A'' =
     Inr \<lparr>index_name = Some ''Date'', index = [1609632000],
          columns = [(''A_B_C'', [Fin 1])]\<rparr> \<and>
   fetch_asset_df world_example collection_example ''A_B'' =
     Inr \<lparr>index_name = Some ''Date'', index = [1609632000],
          columns = [(''A_B_C'', [Fin 3])]\<rparr>"
  by (simp add: fetch_asset_df_def world_example_def spy_download_def drop_ticker_def
      prefixed_def level_value_def)

section \<open>Properties of the merge\<close>

















lemma count_list_concat:
  "count_list (concat xss) n = sum_list (map (\<lambda>xs. count_list xs n) xss)"
  by (induction xss) simp_all























section \<open>The pipeline\<close>

text \<open>
  Lines 113 to 115 keep the rows of the concatenation: the \<^verbatim>\<open>Date\<close> column is its index
  with the time of day removed, and the other columns are its columns without \<^verbatim>\<open>x\<close> and
  \<^verbatim>\<open>y\<close>.
\<close>

lemma merge_frames_result:
  assumes "merge_frames objs = Inr r"
  shows "\<exists>m. pd_concat objs = Inr m \<and>
    Date r = map date_of (index m) \<and>
    value_columns r = filter (\<lambda>(n, vs). n \<noteq> ''x'' \<and> n \<noteq> ''y'') (columns m)"
proof -
  from assms obtain m where m: "pd_concat objs = Inr m"
    by (auto simp: merge_frames_def split: sum.splits)
  with assms obtain m' where d: "drop_columns [''x'', ''y''] m = Inr m'"
    and r: "reset_index_date m' = Inr r"
    by (auto simp: merge_frames_def split: sum.splits)
  from d have m': "m' = m\<lparr>columns := filter (\<lambda>(n, vs). n \<notin> set [''x'', ''y'']) (columns m)\<rparr>"
    by (auto simp: drop_columns_def split: list.splits)
  from r have "Date r = map date_of (index m')" "value_columns r = columns m'"
    by (auto simp: reset_index_date_def Let_def split: if_splits)
  with m m' show ?thesis by (auto simp: case_prod_unfold)
qed

text \<open>
  A run of the whole pipeline on the example world: a price on two days, the second
  asset on the second of them, and the two hash-rate points that lie in the configured
  range, the second at noon. The time of day is gone from the \<^verbatim>\<open>Date\<close> column, so the last
  two rows carry the same date.
\<close>

lemma merge_df_example:
  "merge_df world_example collection_example =
     ([], Inr \<lparr>Date = [18629, 18630, 18630],
               value_columns =
                 [(''BTC-USD_Close'', [Fin 100, Fin 110, NaN]),
                  (''BTC-USD_Volume'', [Fin 7, Fin 9, NaN]),
                  (''BTC_LogReturns'', [NaN, Fin (ln (11 / 10)), NaN]),
                  (''SPY_Close'', [NaN, Fin 370, NaN]),
                  (''HashRate'', [Fin 6, NaN, Fin 8])]\<rparr>)"
proof -
  have btc: "fetch_asset_df world_example collection_example ''BTC-USD'' =
     Inr \<lparr>index_name = Some ''Date'', index = [1609545600, 1609632000],
          columns = [(''BTC-USD_Close'', [Fin 100, Fin 110]),
                     (''BTC-USD_Volume'', [Fin 7, Fin 9])]\<rparr>"
    by (simp add: fetch_asset_df_def world_example_def btc_download_def drop_ticker_def
        droplevel_def level_number_def drop_nth_def prefixed_def level_value_def)
  have spy: "fetch_asset_df world_example collection_example ''SPY'' =
     Inr \<lparr>index_name = Some ''Date'', index = [1609632000],
          columns = [(''SPY_Close'', [Fin 370])]\<rparr>"
    by (simp add: fetch_asset_df_def world_example_def spy_download_def drop_ticker_def
        prefixed_def level_value_def)
  have lr: "bitcoin_log_returns
      \<lparr>index_name = Some ''Date'', index = [1609545600, 1609632000],
          columns = [(''BTC-USD_Close'', [Fin 100, Fin 110]),
                     (''BTC-USD_Volume'', [Fin 7, Fin 9])]\<rparr> ''BTC-USD_Close'' =
     ([], Inr (\<lparr>index_name = Some ''Date'', index = [1609545600, 1609632000],
          columns = [(''BTC-USD_Close'', [Fin 100, Fin 110]),
                     (''BTC-USD_Volume'', [Fin 7, Fin 9]),
                     (''BTC_LogReturns'', [NaN, Fin (ln (11 / 10))])]\<rparr>,
          [(1609632000, Fin (ln (11 / 10)))]))"
    by (simp add: bitcoin_log_returns_def labels_def setitem_def log_returns_def shift1_def
        dropna_def)
  have hr: "fetch_hash_rate world_example collection_example False ''all'' =
     ([], Inr \<lparr>index_name = Some ''Date'', index = [1609545600, 1609675200],
          columns = [(''x'', [Fin 1609545600, Fin 1609675200]), (''y'', [Fin 6, Fin 8]),
                    (''HashRate'', [Fin 6, Fin 8])]\<rparr>)"
    by (simp add: fetch_hash_rate_def world_example_def hash_points_example_def
        hash_rate_frame_def filter_range_def filter_start_def filter_end_def
        collection_example_def select_rows_def)
  show ?thesis
    unfolding merge_df_def btc default_price_col_def
    by (simp add: lr spy hr merge_frames_def pd_concat_def union_indexes_def index_union_def
        union_name_def reindex_def drop_columns_def reset_index_date_def labels_def
        date_of_def)
qed

end
